theory Spec2Isabelle
  imports Main "HOL-Library.Word"
begin

section \<open>Bafang display emulator: data model of \<open>bafang.ino\<close>\<close>

text \<open>
  The firmware samples three buttons, keeps a pedal-assist (PAS) level in an 8-bit
  counter, shows it on an RGB LED and writes three packets to the motor controller.
  Its globals become the record \<open>fw_state\<close>; everything it does to the hardware
  (\<open>analogWrite\<close>, \<open>Serial.write\<close>, \<open>delay\<close>) is appended, in order, to the
  field \<open>trace\<close> of that record.
\<close>

type_synonym u8 = "8 word"
type_synonym u16 = "16 word"

subsection \<open>Enumerations\<close>

datatype BAFCommand = READ | WRITE

fun BAFCommand_u8 :: "BAFCommand \<Rightarrow> u8" where
  "BAFCommand_u8 READ = 0x11"
| "BAFCommand_u8 WRITE = 0x16"

datatype BAFPasCommand =
  PAS_WALK | PAS0 | PAS1 | PAS2 | PAS3 | PAS4 | PAS5 | PAS6 | PAS7 | PAS8 | PAS9

fun BAFPasCommand_u8 :: "BAFPasCommand \<Rightarrow> u8" where
  "BAFPasCommand_u8 PAS_WALK = 0x06"
| "BAFPasCommand_u8 PAS0 = 0x00"
| "BAFPasCommand_u8 PAS1 = 0x01"
| "BAFPasCommand_u8 PAS2 = 0x0B"
| "BAFPasCommand_u8 PAS3 = 0x0C"
| "BAFPasCommand_u8 PAS4 = 0x0D"
| "BAFPasCommand_u8 PAS5 = 0x02"
| "BAFPasCommand_u8 PAS6 = 0x15"
| "BAFPasCommand_u8 PAS7 = 0x16"
| "BAFPasCommand_u8 PAS8 = 0x17"
| "BAFPasCommand_u8 PAS9 = 0x03"

datatype BAFBacklightCommand = OFF | ON

fun BAFBacklightCommand_u8 :: "BAFBacklightCommand \<Rightarrow> u8" where
  "BAFBacklightCommand_u8 OFF = 0xF0"
| "BAFBacklightCommand_u8 ON = 0xF1"

text \<open>
  \<open>enum ButtonStates\<close> indexes the two button arrays; \<open>BTN_STATE_COUNT\<close> is their
  length. The arrays are modelled as total functions on the three indices, and the
  \<open>for\<close> loop over \<open>i = 0, 1, 2\<close> visits the indices in the order of
  \<open>button_indices\<close>.
\<close>

datatype ButtonStates = BTN_UP | BTN_DOWN | BTN_PWR

definition button_indices :: "ButtonStates list" where
  "button_indices = [BTN_UP, BTN_DOWN, BTN_PWR]"

definition BTN_STATE_COUNT :: nat where
  "BTN_STATE_COUNT = length button_indices"

subsection \<open>Colours and pins\<close>

record Color =
  r :: u8
  g :: u8
  b :: u8

definition RED :: Color where "RED = \<lparr>r = 255, g = 0, b = 0\<rparr>"
definition GREEN :: Color where "GREEN = \<lparr>r = 0, g = 255, b = 0\<rparr>"
definition BLUE :: Color where "BLUE = \<lparr>r = 0, g = 0, b = 255\<rparr>"
definition YELLOW :: Color where "YELLOW = \<lparr>r = 255, g = 255, b = 0\<rparr>"
definition MAGENTA :: Color where "MAGENTA = \<lparr>r = 255, g = 0, b = 255\<rparr>"
definition CYAN :: Color where "CYAN = \<lparr>r = 0, g = 255, b = 255\<rparr>"

definition PIN_RED :: nat where "PIN_RED = 5"
definition PIN_GREEN :: nat where "PIN_GREEN = 6"
definition PIN_BLUE :: nat where "PIN_BLUE = 9"
definition PIN_BTN_PWR :: nat where "PIN_BTN_PWR = 2"
definition PIN_BTN_UP :: nat where "PIN_BTN_UP = 3"
definition PIN_BTN_DOWN :: nat where "PIN_BTN_DOWN = 4"

definition MAX_PAS_LEVEL :: int where "MAX_PAS_LEVEL = 4"

definition PAS2Color :: "Color list" where
  "PAS2Color = [RED, GREEN, BLUE, MAGENTA]"

text \<open>
  The two line levels of the Arduino core (\<open>#define HIGH 0x1\<close>, \<open>#define LOW 0x0\<close>),
  as they are stored in the \<open>uint8_t\<close> button arrays.
\<close>

definition HIGH :: u8 where "HIGH = 1"
definition LOW :: u8 where "LOW = 0"

subsection \<open>Packets\<close>

text \<open>
  The three packed structs with their default member initialisers. The union
  \<open>Serializable\<close> exposes a struct as its bytes; a packed struct lays its fields out
  in declaration order without padding, and the 16-bit diameter is stored low byte first
  (the byte order of the AVR and ARM targets of the Arduino core).
\<close>

record baf_pas_pkg_t =
  pas_type :: BAFCommand
  pas_cmd :: u8
  pas_pas :: BAFPasCommand
  pas_checksum :: u8

definition baf_pas_pkg :: baf_pas_pkg_t where
  "baf_pas_pkg = \<lparr>pas_type = WRITE, pas_cmd = 0x08, pas_pas = PAS0, pas_checksum = 0\<rparr>"

definition pas_bytes :: "baf_pas_pkg_t \<Rightarrow> u8 list" where
  "pas_bytes p =
     [BAFCommand_u8 (pas_type p), pas_cmd p, BAFPasCommand_u8 (pas_pas p), pas_checksum p]"

record baf_light_pkg_t =
  light_type :: BAFCommand
  light_cmd :: u8
  light_backlight :: BAFBacklightCommand
  light_checksum :: u8

definition baf_light_pkg :: baf_light_pkg_t where
  "baf_light_pkg =
     \<lparr>light_type = WRITE, light_cmd = 0x1A, light_backlight = OFF, light_checksum = 0\<rparr>"

definition light_bytes :: "baf_light_pkg_t \<Rightarrow> u8 list" where
  "light_bytes p =
     [BAFCommand_u8 (light_type p), light_cmd p,
      BAFBacklightCommand_u8 (light_backlight p), light_checksum p]"

record baf_wheel_pkg_t =
  wheel_type :: BAFCommand
  wheel_cmd :: u8
  wheel_diameter :: u16
  wheel_checksum :: u8

definition baf_wheel_pkg :: baf_wheel_pkg_t where
  "baf_wheel_pkg =
     \<lparr>wheel_type = WRITE, wheel_cmd = 0x1F, wheel_diameter = 0, wheel_checksum = 0\<rparr>"

definition wheel_bytes :: "baf_wheel_pkg_t \<Rightarrow> u8 list" where
  "wheel_bytes p =
     [BAFCommand_u8 (wheel_type p), wheel_cmd p,
      ucast (wheel_diameter p), ucast (drop_bit 8 (wheel_diameter p)),
      wheel_checksum p]"

text \<open>
  The checksum expressions add \<open>uint8_t\<close> and \<open>uint16_t\<close> operands after integral
  promotion and store the sum in a \<open>uint8_t\<close>: the sum is taken in the integers and
  \<open>narrow\<close> keeps its low eight bits.
\<close>

definition narrow :: "int \<Rightarrow> u8" where
  "narrow n = word_of_int n"

subsection \<open>Globals and hardware effects\<close>

datatype event =
  AnalogWrite nat u8
| SerialWrite "u8 list"
| Delay nat

record fw_state =
  buttonState :: "ButtonStates \<Rightarrow> u8"
  lastButtonState :: "ButtonStates \<Rightarrow> u8"
  current_pas_level :: u8
  dirty :: bool
  trace :: "event list"

text \<open>The globals as their initialisers leave them, before the first \<open>loop\<close>.\<close>

definition boot :: fw_state where
  "boot = \<lparr>buttonState = (\<lambda>_. 0), lastButtonState = (\<lambda>_. 0),
            current_pas_level = 1, dirty = False, trace = []\<rparr>"

definition emit :: "event \<Rightarrow> fw_state \<Rightarrow> fw_state" where
  "emit e s = s\<lparr>trace := trace s @ [e]\<rparr>"

definition analogWrite :: "nat \<Rightarrow> u8 \<Rightarrow> fw_state \<Rightarrow> fw_state" where
  "analogWrite pin v = emit (AnalogWrite pin v)"

definition Serial_write :: "u8 list \<Rightarrow> fw_state \<Rightarrow> fw_state" where
  "Serial_write bs = emit (SerialWrite bs)"

definition delay :: "nat \<Rightarrow> fw_state \<Rightarrow> fw_state" where
  "delay ms = emit (Delay ms)"

subsection \<open>The operations\<close>

definition setColor :: "Color \<Rightarrow> fw_state \<Rightarrow> fw_state" where
  "setColor c s =
     analogWrite PIN_BLUE (b c) (analogWrite PIN_GREEN (g c) (analogWrite PIN_RED (r c) s))"

definition updatePAS :: "fw_state \<Rightarrow> fw_state" where
  "updatePAS s =
     (if uint (current_pas_level s) < MAX_PAS_LEVEL
      then setColor (PAS2Color ! unat (current_pas_level s)) s
      else s)"

text \<open>The \<open>switch\<close> of \<open>sendNewState\<close> that chooses the local \<open>pasLevel\<close>.\<close>

definition pasLevel :: "u8 \<Rightarrow> BAFPasCommand" where
  "pasLevel lvl =
     (if lvl = 0 then PAS0
      else if lvl = 1 then PAS1
      else if lvl = 2 then PAS2
      else if lvl = 3 then PAS3
      else if lvl = 4 then PAS4
      else PAS0)"

definition sendNewState :: "fw_state \<Rightarrow> fw_state" where
  "sendNewState s =
     (let pas0 = baf_pas_pkg\<lparr>pas_pas := pasLevel (current_pas_level s)\<rparr>;
          pas = pas0\<lparr>pas_checksum :=
                  narrow (uint (BAFCommand_u8 (pas_type pas0)) + uint (pas_cmd pas0)
                          + uint (BAFPasCommand_u8 (pas_pas pas0)))\<rparr>;
          s1 = delay 1 (Serial_write (pas_bytes pas) s);
          light = baf_light_pkg;
          s2 = delay 1 (Serial_write (light_bytes light) s1);
          wheel0 = baf_wheel_pkg;
          wheel1 = wheel0\<lparr>wheel_checksum :=
                  narrow (uint (BAFCommand_u8 (wheel_type wheel0)) + uint (wheel_cmd wheel0)
                          + uint (wheel_diameter wheel0))\<rparr>;
          wheel = wheel1\<lparr>wheel_diameter := 0x90C6\<rparr>
      in delay 1 (Serial_write (wheel_bytes wheel) s2))"

text \<open>
  The body of the \<open>for\<close> loop of \<open>loop\<close> for one index \<open>i\<close>: on a changed line
  that now reads \<open>HIGH\<close> the \<open>switch\<close> adjusts the level and \<open>dirty\<close> is set; any
  change is followed by the 50 ms delay; the new level of the line is remembered.
\<close>

definition button_step :: "ButtonStates \<Rightarrow> fw_state \<Rightarrow> fw_state" where
  "button_step i s =
     (let s1 =
        (if buttonState s i \<noteq> lastButtonState s i then
           delay 50
             (if buttonState s i = HIGH then
                (case i of
                   BTN_UP \<Rightarrow> s\<lparr>current_pas_level := current_pas_level s + 1\<rparr>
                 | BTN_DOWN \<Rightarrow> s\<lparr>current_pas_level := current_pas_level s - 1\<rparr>
                 | BTN_PWR \<Rightarrow> s)\<lparr>dirty := True\<rparr>
              else s)
         else s)
      in s1\<lparr>lastButtonState := (lastButtonState s1)(i := buttonState s1 i)\<rparr>)"

text \<open>
  The first part of \<open>loop\<close>: the three \<open>digitalRead\<close> calls, whose results are given
  by \<open>din\<close> (pin number to line level), and the \<open>for\<close> loop over the three buttons.
\<close>

definition scan_buttons :: "(nat \<Rightarrow> u8) \<Rightarrow> fw_state \<Rightarrow> fw_state" where
  "scan_buttons din s =
     (let s1 = s\<lparr>buttonState := (buttonState s)(BTN_UP := din PIN_BTN_UP)\<rparr>;
          s2 = s1\<lparr>buttonState := (buttonState s1)(BTN_DOWN := din PIN_BTN_DOWN)\<rparr>;
          s3 = s2\<lparr>buttonState := (buttonState s2)(BTN_PWR := din PIN_BTN_PWR)\<rparr>
      in fold button_step button_indices s3)"

definition loop :: "(nat \<Rightarrow> u8) \<Rightarrow> fw_state \<Rightarrow> fw_state" where
  "loop din s =
     (let s1 = scan_buttons din s
      in if dirty s1 then (sendNewState (updatePAS s1))\<lparr>dirty := False\<rparr> else s1)"

subsection \<open>Observing what one call does\<close>

text \<open>
  \<open>emitted f s\<close> is what the call \<open>f\<close> adds to the trace of \<open>s\<close>, and
  \<open>sent_packets\<close> keeps the byte sequences handed to \<open>Serial.write\<close>.
\<close>

definition emitted :: "(fw_state \<Rightarrow> fw_state) \<Rightarrow> fw_state \<Rightarrow> event list" where
  "emitted f s = drop (length (trace s)) (trace (f s))"

fun sent_packets :: "event list \<Rightarrow> u8 list list" where
  "sent_packets [] = []"
| "sent_packets (SerialWrite bs # es) = bs # sent_packets es"
| "sent_packets (e # es) = sent_packets es"

text \<open>
  The checksum rule of the wire protocol, in the words of the specification: the last
  byte is the sum of all preceding bytes, truncated to eight bits.
\<close>

definition checksum_ok :: "u8 list \<Rightarrow> bool" where
  "checksum_ok bs =
     (bs \<noteq> [] \<and> unat (last bs) = sum_list (map unat (butlast bs)) mod 256)"

subsection \<open>Notions of the specification\<close>

text \<open>
  The sub-command table of the PAS packet, in the words of the specification: level 0 is
  0x00, 1 is 0x01, 2 is 0x0B, 3 is 0x0C, 4 is 0x0D and any other value is 0x00.
\<close>

definition pas_subcommand_spec :: "u8 \<Rightarrow> u8" where
  "pas_subcommand_spec lvl =
     (if lvl = 0 then 0x00 else if lvl = 1 then 0x01 else if lvl = 2 then 0x0B
      else if lvl = 3 then 0x0C else if lvl = 4 then 0x0D else 0x00)"

text \<open>
  The LED writes the specification expects for a level: red, green, blue and magenta for
  the levels 0 to 3 (duty cycles for the pins 5, 6 and 9 of the red, green and blue
  channel), and no write for any other level.
\<close>

definition led_writes_spec :: "u8 \<Rightarrow> event list" where
  "led_writes_spec lvl =
     (if lvl = 0 then [AnalogWrite 5 255, AnalogWrite 6 0, AnalogWrite 9 0]
      else if lvl = 1 then [AnalogWrite 5 0, AnalogWrite 6 255, AnalogWrite 9 0]
      else if lvl = 2 then [AnalogWrite 5 0, AnalogWrite 6 0, AnalogWrite 9 255]
      else if lvl = 3 then [AnalogWrite 5 255, AnalogWrite 6 0, AnalogWrite 9 255]
      else [])"

text \<open>
  An edge event of a channel: the line changed, and it changed to the released level
  \<open>HIGH\<close> of the pull-up wiring.
\<close>

definition released_edge :: "u8 \<Rightarrow> u8 \<Rightarrow> bool" where
  "released_edge old new = (new \<noteq> old \<and> new = HIGH)"

text \<open>The line level that \<open>loop\<close> reads for a button, and the delays of one scan.\<close>

definition reading :: "(nat \<Rightarrow> u8) \<Rightarrow> ButtonStates \<Rightarrow> u8" where
  "reading din i =
     (case i of BTN_UP \<Rightarrow> din PIN_BTN_UP
              | BTN_DOWN \<Rightarrow> din PIN_BTN_DOWN
              | BTN_PWR \<Rightarrow> din PIN_BTN_PWR)"

definition debounce_delays :: "(nat \<Rightarrow> u8) \<Rightarrow> fw_state \<Rightarrow> event list" where
  "debounce_delays din s =
     (if din PIN_BTN_UP \<noteq> lastButtonState s BTN_UP then [Delay 50] else [])
     @ (if din PIN_BTN_DOWN \<noteq> lastButtonState s BTN_DOWN then [Delay 50] else [])
     @ (if din PIN_BTN_PWR \<noteq> lastButtonState s BTN_PWR then [Delay 50] else [])"

subsection \<open>Runs and concrete inputs\<close>

text \<open>
  The Arduino core calls \<open>loop\<close> again and again; \<open>run\<close> performs one iteration for
  each element of a list of pin readings.
\<close>

definition run :: "(nat \<Rightarrow> u8) list \<Rightarrow> fw_state \<Rightarrow> fw_state" where
  "run dins s = fold loop dins s"

text \<open>
  Pin readings: no button held; exactly one button held down; and the reading in which
  only the UP line is high.
\<close>

definition din_idle :: "nat \<Rightarrow> u8" where
  "din_idle pin = HIGH"

definition din_up_held :: "nat \<Rightarrow> u8" where
  "din_up_held pin = (if pin = PIN_BTN_UP then LOW else HIGH)"

definition din_down_held :: "nat \<Rightarrow> u8" where
  "din_down_held pin = (if pin = PIN_BTN_DOWN then LOW else HIGH)"

definition din_pwr_held :: "nat \<Rightarrow> u8" where
  "din_pwr_held pin = (if pin = PIN_BTN_PWR then LOW else HIGH)"

definition din_up_only :: "nat \<Rightarrow> u8" where
  "din_up_only pin = (if pin = PIN_BTN_UP then HIGH else LOW)"

text \<open>
  Two states reached from boot by pressing and releasing buttons: the level is 0 and DOWN
  is held; the level is 255 and UP is held.
\<close>

definition level0_down_held :: fw_state where
  "level0_down_held = run [din_idle, din_down_held, din_idle, din_down_held] boot"

definition level255_up_held :: fw_state where
  "level255_up_held = run [din_idle, din_up_held] level0_down_held"

section \<open>Facts about the operations\<close>

subsection \<open>Traces of the hardware primitives and of \<open>sendNewState\<close>\<close>

lemma trace_emit [simp]: "trace (emit e s) = trace s @ [e]"
  by (simp add: emit_def)

lemma emit_fields [simp]:
  "buttonState (emit e s) = buttonState s"
  "lastButtonState (emit e s) = lastButtonState s"
  "current_pas_level (emit e s) = current_pas_level s"
  "dirty (emit e s) = dirty s"
  by (simp_all add: emit_def)

lemma trace_sendNewState:
  "trace (sendNewState s) = trace s @
     [SerialWrite [0x16, 0x08, BAFPasCommand_u8 (pasLevel (current_pas_level s)),
                   0x1E + BAFPasCommand_u8 (pasLevel (current_pas_level s))],
      Delay 1,
      SerialWrite [0x16, 0x1A, 0xF0, 0x00],
      Delay 1,
      SerialWrite [0x16, 0x1F, 0xC6, 0x90, 0x35],
      Delay 1]"
  by (simp add: sendNewState_def Let_def delay_def Serial_write_def pas_bytes_def
      light_bytes_def wheel_bytes_def baf_pas_pkg_def baf_light_pkg_def baf_wheel_pkg_def
      narrow_def)

lemma sendNewState_fields:
  "buttonState (sendNewState s) = buttonState s"
  "lastButtonState (sendNewState s) = lastButtonState s"
  "current_pas_level (sendNewState s) = current_pas_level s"
  "dirty (sendNewState s) = dirty s"
  by (simp_all add: sendNewState_def Let_def delay_def Serial_write_def)

lemma emitted_sendNewState:
  "emitted sendNewState s =
     [SerialWrite [0x16, 0x08, BAFPasCommand_u8 (pasLevel (current_pas_level s)),
                   0x1E + BAFPasCommand_u8 (pasLevel (current_pas_level s))],
      Delay 1,
      SerialWrite [0x16, 0x1A, 0xF0, 0x00],
      Delay 1,
      SerialWrite [0x16, 0x1F, 0xC6, 0x90, 0x35],
      Delay 1]"
  by (simp add: emitted_def trace_sendNewState)

lemma pasLevel_table:
  "BAFPasCommand_u8 (pasLevel lvl) = pas_subcommand_spec lvl"
  by (simp add: pasLevel_def pas_subcommand_spec_def)

lemma pas_checksum_ok:
  "checksum_ok [0x16, 0x08, pas_subcommand_spec lvl, 0x1E + pas_subcommand_spec lvl]"
  by (simp add: checksum_ok_def pas_subcommand_spec_def)

lemma light_checksum_bad: "checksum_ok [0x16, 0x1A, 0xF0, 0x00 :: u8] = False"
  by (simp add: checksum_ok_def)

lemma wheel_checksum_bad: "checksum_ok [0x16, 0x1F, 0xC6, 0x90, 0x35 :: u8] = False"
  by (simp add: checksum_ok_def)

subsection \<open>The LED update and the button scan\<close>

lemma level_lt_MAX: "uint (l :: u8) < MAX_PAS_LEVEL \<longleftrightarrow> l = 0 \<or> l = 1 \<or> l = 2 \<or> l = 3"
proof -
  have "uint l < 4 \<longleftrightarrow> uint l = 0 \<or> uint l = 1 \<or> uint l = 2 \<or> uint l = 3"
    using uint_ge_0 [of l] by arith
  then show ?thesis
    by (simp add: MAX_PAS_LEVEL_def word_uint_eq_iff)
qed

lemma level_ge_4: "(4 \<le> (l :: u8)) \<longleftrightarrow> \<not> (l = 0 \<or> l = 1 \<or> l = 2 \<or> l = 3)"
proof -
  have "uint l < 4 \<longleftrightarrow> l = 0 \<or> l = 1 \<or> l = 2 \<or> l = 3"
    using level_lt_MAX [of l] by (simp add: MAX_PAS_LEVEL_def)
  moreover have "4 \<le> l \<longleftrightarrow> \<not> uint l < 4"
    by (simp add: word_le_def not_less)
  ultimately show ?thesis by simp
qed

lemma trace_setColor:
  "trace (setColor c s) = trace s @
     [AnalogWrite PIN_RED (r c), AnalogWrite PIN_GREEN (g c), AnalogWrite PIN_BLUE (b c)]"
  by (simp add: setColor_def analogWrite_def)

lemma setColor_fields:
  "buttonState (setColor c s) = buttonState s"
  "lastButtonState (setColor c s) = lastButtonState s"
  "current_pas_level (setColor c s) = current_pas_level s"
  "dirty (setColor c s) = dirty s"
  by (simp_all add: setColor_def analogWrite_def)

lemma updatePAS_cases:
  "updatePAS s =
     (if current_pas_level s = 0 then setColor RED s
      else if current_pas_level s = 1 then setColor GREEN s
      else if current_pas_level s = 2 then setColor BLUE s
      else if current_pas_level s = 3 then setColor MAGENTA s
      else s)"
  by (auto simp: updatePAS_def level_lt_MAX PAS2Color_def)

lemma trace_updatePAS: "trace (updatePAS s) = trace s @ led_writes_spec (current_pas_level s)"
  by (simp add: updatePAS_cases trace_setColor led_writes_spec_def RED_def GREEN_def BLUE_def
      MAGENTA_def PIN_RED_def PIN_GREEN_def PIN_BLUE_def)

lemma updatePAS_fields:
  "buttonState (updatePAS s) = buttonState s"
  "lastButtonState (updatePAS s) = lastButtonState s"
  "current_pas_level (updatePAS s) = current_pas_level s"
  "dirty (updatePAS s) = dirty s"
  by (simp_all add: updatePAS_def setColor_fields)

lemma setColor_neq: "setColor c s \<noteq> s"
proof
  assume "setColor c s = s"
  then have "length (trace (setColor c s)) = length (trace s)" by simp
  then show False by (simp add: trace_setColor)
qed

lemma button_step_buttonState: "buttonState (button_step i s) = buttonState s"
  by (simp add: button_step_def Let_def delay_def split: ButtonStates.split)

lemma button_step_lastButtonState:
  "lastButtonState (button_step i s) = (lastButtonState s)(i := buttonState s i)"
  by (simp add: button_step_def Let_def delay_def split: ButtonStates.split)

lemma button_step_level:
  "current_pas_level (button_step i s) =
     (if released_edge (lastButtonState s i) (buttonState s i)
      then (case i of BTN_UP \<Rightarrow> current_pas_level s + 1
                    | BTN_DOWN \<Rightarrow> current_pas_level s - 1
                    | BTN_PWR \<Rightarrow> current_pas_level s)
      else current_pas_level s)"
  by (simp add: button_step_def Let_def delay_def released_edge_def split: ButtonStates.split)

lemma button_step_dirty:
  "dirty (button_step i s) =
     (dirty s \<or> released_edge (lastButtonState s i) (buttonState s i))"
  by (auto simp: button_step_def Let_def delay_def released_edge_def split: ButtonStates.split)

lemma button_step_trace:
  "trace (button_step i s) =
     trace s @ (if buttonState s i \<noteq> lastButtonState s i then [Delay 50] else [])"
  by (simp add: button_step_def Let_def delay_def split: ButtonStates.split)

lemmas button_step_simps = button_step_buttonState button_step_lastButtonState
  button_step_level button_step_dirty button_step_trace

lemma scan_buttons_buttonState: "buttonState (scan_buttons din s) = reading din"
  by (rule ext) (simp add: scan_buttons_def Let_def button_indices_def button_step_simps
      reading_def split: ButtonStates.split)

lemma scan_buttons_lastButtonState: "lastButtonState (scan_buttons din s) = reading din"
  by (rule ext) (simp add: scan_buttons_def Let_def button_indices_def button_step_simps
      reading_def split: ButtonStates.split)

lemma scan_buttons_level:
  "current_pas_level (scan_buttons din s) =
     current_pas_level s
     + (if released_edge (lastButtonState s BTN_UP) (din PIN_BTN_UP) then 1 else 0)
     - (if released_edge (lastButtonState s BTN_DOWN) (din PIN_BTN_DOWN) then 1 else 0)"
  by (simp add: scan_buttons_def Let_def button_indices_def button_step_simps)

lemma scan_buttons_dirty:
  "dirty (scan_buttons din s) =
     (dirty s \<or> released_edge (lastButtonState s BTN_UP) (din PIN_BTN_UP)
      \<or> released_edge (lastButtonState s BTN_DOWN) (din PIN_BTN_DOWN)
      \<or> released_edge (lastButtonState s BTN_PWR) (din PIN_BTN_PWR))"
  by (simp add: scan_buttons_def Let_def button_indices_def button_step_simps)

lemma scan_buttons_trace:
  "trace (scan_buttons din s) = trace s
     @ (if din PIN_BTN_UP \<noteq> lastButtonState s BTN_UP then [Delay 50] else [])
     @ (if din PIN_BTN_DOWN \<noteq> lastButtonState s BTN_DOWN then [Delay 50] else [])
     @ (if din PIN_BTN_PWR \<noteq> lastButtonState s BTN_PWR then [Delay 50] else [])"
  by (simp add: scan_buttons_def Let_def button_indices_def button_step_simps)

lemma loop_buttonState: "buttonState (loop din s) = reading din"
  by (simp add: loop_def Let_def scan_buttons_buttonState sendNewState_fields updatePAS_fields)

lemma loop_lastButtonState: "lastButtonState (loop din s) = reading din"
  by (simp add: loop_def Let_def scan_buttons_lastButtonState sendNewState_fields
      updatePAS_fields)

lemma loop_level: "current_pas_level (loop din s) = current_pas_level (scan_buttons din s)"
  by (simp add: loop_def Let_def sendNewState_fields updatePAS_fields)

lemma loop_dirty: "dirty (loop din s) = False"
  by (simp add: loop_def Let_def)

lemma sent_packets_append: "sent_packets (xs @ ys) = sent_packets xs @ sent_packets ys"
  by (induction xs rule: sent_packets.induct) simp_all

lemma sent_packets_led [simp]: "sent_packets (led_writes_spec l) = []"
  by (simp add: led_writes_spec_def)

lemma emittedI: "trace (f s) = trace s @ xs \<Longrightarrow> emitted f s = xs"
  by (simp add: emitted_def)

lemma sent_packets_delays [simp]: "sent_packets (debounce_delays din s) = []"
  by (simp add: debounce_delays_def)

lemma loop_trace:
  "trace (loop din s) = trace s @ debounce_delays din s @
     (if dirty (scan_buttons din s)
      then led_writes_spec (current_pas_level (scan_buttons din s))
           @ [SerialWrite [0x16, 0x08, pas_subcommand_spec (current_pas_level (scan_buttons din s)),
                   0x1E + pas_subcommand_spec (current_pas_level (scan_buttons din s))],
              Delay 1,
              SerialWrite [0x16, 0x1A, 0xF0, 0x00],
              Delay 1,
              SerialWrite [0x16, 0x1F, 0xC6, 0x90, 0x35],
              Delay 1]
      else [])"
  by (simp add: loop_def Let_def trace_sendNewState trace_updatePAS
      updatePAS_fields scan_buttons_trace debounce_delays_def pasLevel_table)

lemma loop_sent_packets:
  "sent_packets (emitted (loop din) s) =
     (if dirty (scan_buttons din s)
      then [[0x16, 0x08, pas_subcommand_spec (current_pas_level (scan_buttons din s)),
             0x1E + pas_subcommand_spec (current_pas_level (scan_buttons din s))],
            [0x16, 0x1A, 0xF0, 0x00],
            [0x16, 0x1F, 0xC6, 0x90, 0x35]]
      else [])"
  by (simp add: emittedI [OF loop_trace] sent_packets_append)

subsection \<open>Evaluating concrete runs\<close>

lemmas din_defs = din_idle_def din_up_held_def din_down_held_def din_pwr_held_def
  din_up_only_def PIN_BTN_UP_def PIN_BTN_DOWN_def PIN_BTN_PWR_def HIGH_def LOW_def

lemmas eval_simps = run_def loop_lastButtonState loop_level scan_buttons_level reading_def
  released_edge_def boot_def din_defs

section \<open>The claims\<close>

text \<open>
  Claim C1 (the checksum rule for every transmitted packet). Of the three packets that
  \<open>sendNewState\<close> writes, in the order PAS, backlight, wheel, only the PAS packet ends
  in the sum of its preceding bytes modulo 256. The backlight packet is written with the
  checksum field still at its initial 0, and the wheel packet with a checksum taken before
  the diameter was stored, so the rule fails for both, whatever the state.
\<close>

theorem sendNewState_checksums:
  "map checksum_ok (sent_packets (emitted sendNewState s)) = [True, False, False]"
  by (simp add: emitted_sendNewState pasLevel_table pas_checksum_ok light_checksum_bad
      wheel_checksum_bad)

text \<open>
  Claim C2 (the PAS packet). For every value of the assist level, the first packet that
  \<open>sendNewState\<close> writes is the four bytes 0x16, 0x08, m, c, where m is the table entry
  of the level (0 to 0x00, 1 to 0x01, 2 to 0x0B, 3 to 0x0C, 4 to 0x0D, anything else to
  0x00) and c is (0x16 + 0x08 + m) mod 256.
\<close>

theorem sendNewState_pas_packet:
  "sent_packets (emitted sendNewState s) ! 0 =
     [0x16, 0x08, pas_subcommand_spec (current_pas_level s),
      word_of_nat ((0x16 + 0x08 + unat (pas_subcommand_spec (current_pas_level s))) mod 256)]"
  by (simp add: emitted_sendNewState pasLevel_table pas_subcommand_spec_def)

text \<open>
  Claim C3 (the wheel packet). The third packet that \<open>sendNewState\<close> writes is always
  0x16, 0x1F, 0xC6, 0x90, 0x35: the diameter bytes carry 0x90C6, low byte first, and the
  checksum byte is (0x16 + 0x1F + 0) mod 256 = 0x35, the sum taken while the diameter was
  still zero. That byte differs from the sum over the transmitted bytes, so the packet
  does not satisfy the checksum rule.
\<close>

theorem sendNewState_wheel_packet:
  "sent_packets (emitted sendNewState s) ! 2 = [0x16, 0x1F, 0xC6, 0x90, 0x35]
   \<and> (0x35 :: u8) = word_of_nat ((0x16 + 0x1F + 0) mod 256)
   \<and> (0x35 :: u8) \<noteq> word_of_nat ((0x16 + 0x1F + 0xC6 + 0x90) mod 256)
   \<and> checksum_ok (sent_packets (emitted sendNewState s) ! 2) = False"
  by (simp add: emitted_sendNewState wheel_checksum_bad)

text \<open>
  Claim C4 (the backlight packet). The second packet that \<open>sendNewState\<close> writes is,
  in every state, the four bytes 0x16, 0x1A, 0xF0, 0x00. Its last byte is the initial value
  of the checksum field, which is never assigned; the sum (0x16 + 0x1A + 0xF0) mod 256 is
  0x20, so the packet does not satisfy the checksum rule.
\<close>

theorem sendNewState_light_packet:
  "sent_packets (emitted sendNewState s) ! 1 = [0x16, 0x1A, 0xF0, 0x00]
   \<and> word_of_nat ((0x16 + 0x1A + 0xF0) mod 256) = (0x20 :: u8)
   \<and> checksum_ok (sent_packets (emitted sendNewState s) ! 1) = False"
  by (simp add: emitted_sendNewState light_checksum_bad)

text \<open>
  Claim C5 (an UP edge at level 1), as amended. In a state whose assist level is 1, such
  as the boot state, an iteration of \<open>loop\<close> that sees an edge on UP and none on DOWN
  raises the level to 2 and transmits the PAS packet 0x16, 0x08, 0x0B, 0x29 of level 2 in
  that iteration.
\<close>

theorem up_edge_from_level_1:
  assumes "current_pas_level s = 1"
    and "released_edge (lastButtonState s BTN_UP) (din PIN_BTN_UP)"
    and "\<not> released_edge (lastButtonState s BTN_DOWN) (din PIN_BTN_DOWN)"
  shows "current_pas_level (loop din s) = 2
         \<and> sent_packets (emitted (loop din) s) ! 0 = [0x16, 0x08, 0x0B, 0x29]"
  using assms
  by (simp add: loop_level scan_buttons_level loop_sent_packets scan_buttons_dirty
      pas_subcommand_spec_def)

theorem up_edge_from_level_1_witness:
  "current_pas_level boot = 1
   \<and> released_edge (lastButtonState boot BTN_UP) (din_up_only PIN_BTN_UP)
   \<and> \<not> released_edge (lastButtonState boot BTN_DOWN) (din_up_only PIN_BTN_DOWN)
   \<and> current_pas_level (loop din_up_only boot) = 2
   \<and> sent_packets (emitted (loop din_up_only) boot) ! 0 = [0x16, 0x08, 0x0B, 0x29]"
proof -
  have h1: "current_pas_level boot = 1" by (simp add: boot_def)
  have h2: "released_edge (lastButtonState boot BTN_UP) (din_up_only PIN_BTN_UP)"
    by (simp add: eval_simps)
  have h3: "\<not> released_edge (lastButtonState boot BTN_DOWN) (din_up_only PIN_BTN_DOWN)"
    by (simp add: eval_simps)
  show ?thesis using up_edge_from_level_1 [OF h1 h2 h3] h1 h2 h3 by simp
qed

theorem up_edge_at_boot_counterexample:
  "current_pas_level boot = 1
   \<and> released_edge (lastButtonState boot BTN_UP) (din_up_only PIN_BTN_UP)
   \<and> din_up_only PIN_BTN_DOWN = lastButtonState boot BTN_DOWN
   \<and> din_up_only PIN_BTN_PWR = lastButtonState boot BTN_PWR
   \<and> sent_packets (emitted (loop din_up_only) boot) ! 0 \<noteq> [0x16, 0x08, 0x01, 0x1F]"
  by (simp add: eval_simps loop_sent_packets scan_buttons_dirty pas_subcommand_spec_def)

text \<open>
  Claim C6 (an edge on POWER only), as amended. When only the POWER line produces an edge
  in an iteration of \<open>loop\<close>, the assist level stays as it is, but the scan sets the
  dirty flag, and the iteration then does the whole refresh: after the debounce delays it
  refreshes the LED for the unchanged level (the colour of a level from 0 to 3, no write
  for a level of 4 or more), transmits all three packets (the PAS packet being that of
  the unchanged level), each followed by its 1 ms delay, and ends with the dirty flag
  cleared.
\<close>

theorem power_edge_transmits:
  assumes "released_edge (lastButtonState s BTN_PWR) (din PIN_BTN_PWR)"
    and "\<not> released_edge (lastButtonState s BTN_UP) (din PIN_BTN_UP)"
    and "\<not> released_edge (lastButtonState s BTN_DOWN) (din PIN_BTN_DOWN)"
  shows "current_pas_level (loop din s) = current_pas_level s
         \<and> dirty (scan_buttons din s)
         \<and> sent_packets (emitted (loop din) s) =
             [[0x16, 0x08, pas_subcommand_spec (current_pas_level s),
               0x1E + pas_subcommand_spec (current_pas_level s)],
              [0x16, 0x1A, 0xF0, 0x00],
              [0x16, 0x1F, 0xC6, 0x90, 0x35]]
         \<and> emitted (loop din) s =
             debounce_delays din s @ led_writes_spec (current_pas_level s)
             @ [SerialWrite [0x16, 0x08, pas_subcommand_spec (current_pas_level s),
                             0x1E + pas_subcommand_spec (current_pas_level s)],
                Delay 1,
                SerialWrite [0x16, 0x1A, 0xF0, 0x00],
                Delay 1,
                SerialWrite [0x16, 0x1F, 0xC6, 0x90, 0x35],
                Delay 1]
         \<and> \<not> dirty (loop din s)"
proof -
  have d: "dirty (scan_buttons din s)"
    using assms by (simp add: scan_buttons_dirty)
  have l: "current_pas_level (scan_buttons din s) = current_pas_level s"
    using assms by (simp add: scan_buttons_level)
  have p: "sent_packets (emitted (loop din) s) =
             [[0x16, 0x08, pas_subcommand_spec (current_pas_level s),
               0x1E + pas_subcommand_spec (current_pas_level s)],
              [0x16, 0x1A, 0xF0, 0x00],
              [0x16, 0x1F, 0xC6, 0x90, 0x35]]"
    using d l by (simp add: loop_sent_packets)
  have e: "emitted (loop din) s =
             debounce_delays din s @ led_writes_spec (current_pas_level s)
             @ [SerialWrite [0x16, 0x08, pas_subcommand_spec (current_pas_level s),
                             0x1E + pas_subcommand_spec (current_pas_level s)],
                Delay 1,
                SerialWrite [0x16, 0x1A, 0xF0, 0x00],
                Delay 1,
                SerialWrite [0x16, 0x1F, 0xC6, 0x90, 0x35],
                Delay 1]"
    using d l by (simp add: emittedI [OF loop_trace])
  show ?thesis
    using d l p e by (simp add: loop_level loop_dirty)
qed

theorem power_edge_transmits_witness:
  "released_edge (lastButtonState (run [din_idle, din_pwr_held] boot) BTN_PWR)
                 (din_idle PIN_BTN_PWR)
   \<and> \<not> released_edge (lastButtonState (run [din_idle, din_pwr_held] boot) BTN_UP)
                 (din_idle PIN_BTN_UP)
   \<and> \<not> released_edge (lastButtonState (run [din_idle, din_pwr_held] boot) BTN_DOWN)
                 (din_idle PIN_BTN_DOWN)
   \<and> current_pas_level (loop din_idle (run [din_idle, din_pwr_held] boot)) = 1
   \<and> sent_packets (emitted (loop din_idle) (run [din_idle, din_pwr_held] boot)) =
        [[0x16, 0x08, 0x01, 0x1F], [0x16, 0x1A, 0xF0, 0x00], [0x16, 0x1F, 0xC6, 0x90, 0x35]]
   \<and> emitted (loop din_idle) (run [din_idle, din_pwr_held] boot) =
        [Delay 50,
         AnalogWrite 5 0, AnalogWrite 6 255, AnalogWrite 9 0,
         SerialWrite [0x16, 0x08, 0x01, 0x1F], Delay 1,
         SerialWrite [0x16, 0x1A, 0xF0, 0x00], Delay 1,
         SerialWrite [0x16, 0x1F, 0xC6, 0x90, 0x35], Delay 1]
   \<and> \<not> dirty (loop din_idle (run [din_idle, din_pwr_held] boot))"
proof -
  let ?s = "run [din_idle, din_pwr_held] boot"
  have h1: "released_edge (lastButtonState ?s BTN_PWR) (din_idle PIN_BTN_PWR)"
    by (simp add: eval_simps)
  have h2: "\<not> released_edge (lastButtonState ?s BTN_UP) (din_idle PIN_BTN_UP)"
    by (simp add: eval_simps)
  have h3: "\<not> released_edge (lastButtonState ?s BTN_DOWN) (din_idle PIN_BTN_DOWN)"
    by (simp add: eval_simps)
  have l: "current_pas_level ?s = 1"
    by (simp add: eval_simps)
  have dl: "debounce_delays din_idle ?s = [Delay 50]"
    by (simp add: debounce_delays_def eval_simps)
  show ?thesis using power_edge_transmits [OF h1 h2 h3] h1 h2 h3 l dl
    by (simp add: pas_subcommand_spec_def led_writes_spec_def)
qed

theorem power_edge_counterexample:
  "released_edge (lastButtonState (run [din_idle, din_pwr_held] boot) BTN_PWR)
                 (din_idle PIN_BTN_PWR)
   \<and> din_idle PIN_BTN_UP = lastButtonState (run [din_idle, din_pwr_held] boot) BTN_UP
   \<and> din_idle PIN_BTN_DOWN = lastButtonState (run [din_idle, din_pwr_held] boot) BTN_DOWN
   \<and> dirty (scan_buttons din_idle (run [din_idle, din_pwr_held] boot))
   \<and> sent_packets (emitted (loop din_idle) (run [din_idle, din_pwr_held] boot)) =
        [[0x16, 0x08, 0x01, 0x1F], [0x16, 0x1A, 0xF0, 0x00], [0x16, 0x1F, 0xC6, 0x90, 0x35]]"
  by (simp add: eval_simps loop_sent_packets scan_buttons_dirty pas_subcommand_spec_def)

text \<open>
  Claim C7 (wrap-around of the level counter), as amended. With the 8-bit counter at 0, an
  iteration of \<open>loop\<close> with an edge on DOWN only leaves it at 255, the largest value of
  the counter; with the counter at 255, an iteration with an edge on UP only leaves it
  at 0.
\<close>

theorem level_wraps:
  assumes "current_pas_level s = 0"
    and "released_edge (lastButtonState s BTN_DOWN) (din PIN_BTN_DOWN)"
    and "\<not> released_edge (lastButtonState s BTN_UP) (din PIN_BTN_UP)"
    and "current_pas_level t = 255"
    and "released_edge (lastButtonState t BTN_UP) (din' PIN_BTN_UP)"
    and "\<not> released_edge (lastButtonState t BTN_DOWN) (din' PIN_BTN_DOWN)"
  shows "current_pas_level (loop din s) = 255 \<and> current_pas_level (loop din' t) = 0"
  using assms by (simp add: loop_level scan_buttons_level)

theorem level_wraps_witness:
  "current_pas_level level0_down_held = 0
   \<and> released_edge (lastButtonState level0_down_held BTN_DOWN) (din_idle PIN_BTN_DOWN)
   \<and> \<not> released_edge (lastButtonState level0_down_held BTN_UP) (din_idle PIN_BTN_UP)
   \<and> current_pas_level level255_up_held = 255
   \<and> released_edge (lastButtonState level255_up_held BTN_UP) (din_idle PIN_BTN_UP)
   \<and> \<not> released_edge (lastButtonState level255_up_held BTN_DOWN) (din_idle PIN_BTN_DOWN)
   \<and> current_pas_level (loop din_idle level0_down_held) = 255
   \<and> current_pas_level (loop din_idle level255_up_held) = 0"
proof -
  have h1: "current_pas_level level0_down_held = 0"
    by (simp add: level0_down_held_def eval_simps)
  have h2: "released_edge (lastButtonState level0_down_held BTN_DOWN) (din_idle PIN_BTN_DOWN)"
    by (simp add: level0_down_held_def eval_simps)
  have h3: "\<not> released_edge (lastButtonState level0_down_held BTN_UP) (din_idle PIN_BTN_UP)"
    by (simp add: level0_down_held_def eval_simps)
  have h4: "current_pas_level level255_up_held = 255"
    by (simp add: level255_up_held_def level0_down_held_def eval_simps)
  have h5: "released_edge (lastButtonState level255_up_held BTN_UP) (din_idle PIN_BTN_UP)"
    by (simp add: level255_up_held_def eval_simps)
  have h6: "\<not> released_edge (lastButtonState level255_up_held BTN_DOWN) (din_idle PIN_BTN_DOWN)"
    by (simp add: level255_up_held_def eval_simps)
  show ?thesis using level_wraps [OF h1 h2 h3 h4 h5 h6] h1 h2 h3 h4 h5 h6 by simp
qed

theorem decrement_from_1_counterexample:
  "current_pas_level (run [din_idle, din_down_held] boot) = 1
   \<and> released_edge (lastButtonState (run [din_idle, din_down_held] boot) BTN_DOWN)
                    (din_idle PIN_BTN_DOWN)
   \<and> din_idle PIN_BTN_UP = lastButtonState (run [din_idle, din_down_held] boot) BTN_UP
   \<and> current_pas_level (loop din_idle (run [din_idle, din_down_held] boot)) = 0
   \<and> current_pas_level (loop din_idle (run [din_idle, din_down_held] boot)) \<noteq> 255"
  by (simp add: eval_simps)

text \<open>
  Claim C8 (the LED update). What \<open>updatePAS\<close> writes is red for level 0, green for
  level 1, blue for level 2 and magenta for level 3, each as three duty cycles on the
  pins 5, 6 and 9. For a level of 4 or more it writes nothing and returns the state as it
  was, and these are the only levels for which it writes nothing.
\<close>

theorem updatePAS_led:
  "emitted updatePAS s = led_writes_spec (current_pas_level s)
   \<and> (updatePAS s = s) = (4 \<le> current_pas_level s)
   \<and> (emitted updatePAS s = []) = (4 \<le> current_pas_level s)"
proof -
  have e: "emitted updatePAS s = led_writes_spec (current_pas_level s)"
    by (simp add: emitted_def trace_updatePAS)
  have "(updatePAS s = s) = (4 \<le> current_pas_level s)"
    by (simp add: updatePAS_cases level_ge_4 setColor_neq)
  moreover have "(led_writes_spec (current_pas_level s) = []) = (4 \<le> current_pas_level s)"
    by (simp add: led_writes_spec_def level_ge_4)
  ultimately show ?thesis using e by simp
qed

text \<open>
  Claim C9 (edge actions). One iteration of \<open>loop\<close> adds one to the assist level
  exactly when the UP line changed and now reads \<open>HIGH\<close>, subtracts one exactly when
  the DOWN line changed and now reads \<open>HIGH\<close>, and changes the level in no other way: a
  change to any other line level, and any change of the POWER line, leaves it alone. The
  dirty flag is set by the scan exactly by such edges, on any of the three channels.
\<close>

theorem loop_edge_actions:
  "current_pas_level (loop din s) =
     current_pas_level s
     + (if released_edge (lastButtonState s BTN_UP) (din PIN_BTN_UP) then 1 else 0)
     - (if released_edge (lastButtonState s BTN_DOWN) (din PIN_BTN_DOWN) then 1 else 0)
   \<and> dirty (scan_buttons din s) =
       (dirty s \<or> released_edge (lastButtonState s BTN_UP) (din PIN_BTN_UP)
        \<or> released_edge (lastButtonState s BTN_DOWN) (din PIN_BTN_DOWN)
        \<or> released_edge (lastButtonState s BTN_PWR) (din PIN_BTN_PWR))"
  by (simp add: loop_level scan_buttons_level scan_buttons_dirty)

text \<open>
  Claim C10 (the state at the end of an iteration). After every iteration of \<open>loop\<close>,
  from any state and for any pin readings, the remembered line level of each of the three
  buttons equals its current one, and the dirty flag is false.
\<close>

theorem loop_end_invariant:
  "(\<forall>i. lastButtonState (loop din s) i = buttonState (loop din s) i) \<and> \<not> dirty (loop din s)"
  by (simp add: loop_lastButtonState loop_buttonState loop_dirty)

end
